theory Spec2Isabelle
  imports Main "HOL-Library.Multiset"
begin

section \<open>Go library operations used by the program\<close>

text \<open>
  Go strings are byte sequences, as \<^typ>\<open>string\<close> is here. The helpers below are the pieces
  of Go's standard library the program calls: \<^verbatim>\<open>strings.Contains\<close>, \<^verbatim>\<open>strings.Join\<close>,
  \<^verbatim>\<open>slices.Contains\<close>, \<^verbatim>\<open>strconv.Atoi\<close> and the verbs \<^verbatim>\<open>%d\<close> and \<^verbatim>\<open>%v\<close> of \<^verbatim>\<open>fmt.Sprintf\<close>.
\<close>

fun HasPrefix :: "string \<Rightarrow> string \<Rightarrow> bool" where
  "HasPrefix s [] = True"
| "HasPrefix [] (p # ps) = False"
| "HasPrefix (c # cs) (p # ps) = (if c = p then HasPrefix cs ps else False)"

text \<open>\<^verbatim>\<open>strings.Contains(s, substr)\<close>: \<open>substr\<close> occurs in \<open>s\<close> as a contiguous run.\<close>

fun Contains_str :: "string \<Rightarrow> string \<Rightarrow> bool" where
  "Contains_str [] sub = (sub = [])"
| "Contains_str (c # cs) sub = (if HasPrefix (c # cs) sub then True else Contains_str cs sub)"

text \<open>\<^verbatim>\<open>strings.Join(elems, sep)\<close>.\<close>

fun Join :: "string list \<Rightarrow> string \<Rightarrow> string" where
  "Join [] sep = []"
| "Join [x] sep = x"
| "Join (x # y # ys) sep = x @ sep @ Join (y # ys) sep"

text \<open>\<^verbatim>\<open>slices.Contains(s, v)\<close>.\<close>

definition slices_Contains :: "'a list \<Rightarrow> 'a \<Rightarrow> bool" where
  "slices_Contains s v = (v \<in> set s)"

text \<open>Decimal digits, for \<^verbatim>\<open>strconv.Atoi\<close> and for the verb \<^verbatim>\<open>%d\<close>.\<close>

definition digit_of :: "char \<Rightarrow> nat option" where
  "digit_of c =
     map_of
       [(CHR ''0'', 0), (CHR ''1'', 1), (CHR ''2'', 2), (CHR ''3'', 3), (CHR ''4'', 4),
        (CHR ''5'', 5), (CHR ''6'', 6), (CHR ''7'', 7), (CHR ''8'', 8), (CHR ''9'', 9)] c"

text \<open>The value of a run of decimal digits read left to right, \<open>None\<close> at the first byte
  that is not a digit.\<close>

fun parse_digits :: "nat \<Rightarrow> string \<Rightarrow> nat option" where
  "parse_digits acc [] = Some acc"
| "parse_digits acc (c # cs) =
     (case digit_of c of None \<Rightarrow> None | Some d \<Rightarrow> parse_digits (10 * acc + d) cs)"

text \<open>
  \<^verbatim>\<open>strconv.Atoi(s)\<close> on a platform whose \<^verbatim>\<open>int\<close> has 64 bits: an optional sign, then
  one or more decimal digits and nothing else; a value outside the 64-bit range is an error
  as well. \<open>None\<close> stands for the non-nil \<^verbatim>\<open>err\<close>.
\<close>

definition Atoi :: "string \<Rightarrow> int option" where
  "Atoi s =
     (let neg = (case s of [] \<Rightarrow> False | c # cs \<Rightarrow> c = CHR ''-'');
          ds = (case s of [] \<Rightarrow> [] | c # cs \<Rightarrow> if c = CHR ''-'' \<or> c = CHR ''+'' then cs else s)
      in if ds = [] then None
         else case parse_digits 0 ds of
                None \<Rightarrow> None
              | Some n \<Rightarrow>
                  (let v = (if neg then - int n else int n)
                   in if - (2 ^ 63) \<le> v \<and> v < 2 ^ 63 then Some v else None))"

definition digit_char :: "nat \<Rightarrow> char" where
  "digit_char d = ''0123456789'' ! d"

fun show_nat :: "nat \<Rightarrow> string" where
  "show_nat n = (if n < 10 then [digit_char n] else show_nat (n div 10) @ [digit_char (n mod 10)])"

text \<open>The verb \<^verbatim>\<open>%d\<close> of \<^verbatim>\<open>fmt.Sprintf\<close> on an \<^verbatim>\<open>int\<close>.\<close>

definition Sprint_d :: "int \<Rightarrow> string" where
  "Sprint_d i = (if i < 0 then CHR ''-'' # show_nat (nat (- i)) else show_nat (nat i))"

text \<open>
  A value of Go's type \<^verbatim>\<open>any\<close>, as a condition holds it after YAML decoding: a string, an
  integer, a boolean or nil. Every other dynamic type (a float, a sequence, a mapping) is
  \<open>AOther\<close>, carrying the text \<^verbatim>\<open>%v\<close> prints for it.
\<close>

datatype any_value = AString string | AInt int | ABool bool | ANil | AOther string

text \<open>\<^verbatim>\<open>fmt.Sprintf("%v", v)\<close>.\<close>

fun Sprint_v :: "any_value \<Rightarrow> string" where
  "Sprint_v (AString s) = s"
| "Sprint_v (AInt i) = Sprint_d i"
| "Sprint_v (ABool b) = (if b then ''true'' else ''false'')"
| "Sprint_v ANil = ''<nil>''"
| "Sprint_v (AOther s) = s"

text \<open>
  The regular-expression engine and the floating-point operations are parameters of the
  model: \<open>regexp_Compile p\<close> is \<open>None\<close> when \<^verbatim>\<open>regexp.Compile(p)\<close> returns an error and
  otherwise the compiled expression's \<^verbatim>\<open>MatchString\<close>; \<open>ParseFloat s\<close> is \<open>None\<close> when
  \<^verbatim>\<open>strconv.ParseFloat(s, 64)\<close> returns an error; \<open>float_less\<close> is \<^verbatim>\<open><\<close> on
  \<^verbatim>\<open>float64\<close>, whose values are the type parameter \<open>'f\<close>.
\<close>

record 'f golib =
  regexp_Compile :: "string \<Rightarrow> (string \<Rightarrow> bool) option"
  ParseFloat :: "string \<Rightarrow> 'f option"
  float_less :: "'f \<Rightarrow> 'f \<Rightarrow> bool"

text \<open>A panic of the Go runtime.\<close>

datatype panic = NilPointerDereference | IndexOutOfRange

section \<open>Cloud resources (pkg/cloudresource, pkg/cloudresource/provider/aws/resource.go)\<close>

datatype ComplianceError = ComplianceError (Message: string)

datatype ComplianceWarning = ComplianceWarning (WarningMessage: string)

record AWSResource =
  ResourceARN :: string
  ResourceType :: string
  ServiceName :: string
  AccountID :: string
  ResourceRegion :: string
  ResourceTags :: "string \<rightharpoonup> string"
  Errors :: "ComplianceError list"
  Warnings :: "ComplianceWarning list"

definition Tags :: "AWSResource \<Rightarrow> (string \<rightharpoonup> string)" where
  "Tags r = ResourceTags r"

definition IsCompliant :: "AWSResource \<Rightarrow> bool" where
  "IsCompliant r = (length (Errors r) = 0)"

definition AddComplianceError :: "AWSResource \<Rightarrow> string \<Rightarrow> AWSResource" where
  "AddComplianceError r msg = r\<lparr>Errors := Errors r @ [ComplianceError msg]\<rparr>"

definition AddComplianceWarning :: "AWSResource \<Rightarrow> string \<Rightarrow> AWSResource" where
  "AddComplianceWarning r msg = r\<lparr>Warnings := Warnings r @ [ComplianceWarning msg]\<rparr>"

definition ComplianceErrors :: "AWSResource \<Rightarrow> ComplianceError list" where
  "ComplianceErrors r = Errors r"

definition ComplianceWarnings :: "AWSResource \<Rightarrow> ComplianceWarning list" where
  "ComplianceWarnings r = Warnings r"

text \<open>The two mutations of a resource's compliance state, and a run of them in order.\<close>

datatype mutation = AddError string | AddWarning string

fun mutate :: "AWSResource \<Rightarrow> mutation \<Rightarrow> AWSResource" where
  "mutate r (AddError msg) = AddComplianceError r msg"
| "mutate r (AddWarning msg) = AddComplianceWarning r msg"

fun mutate_all :: "AWSResource \<Rightarrow> mutation list \<Rightarrow> AWSResource" where
  "mutate_all r [] = r"
| "mutate_all r (m # ms) = mutate_all (mutate r m) ms"

section \<open>Policy types (pkg/policy/types)\<close>

type_synonym TagType = string

definition TagTypeString :: TagType where
  "TagTypeString = ''string''"

definition TagTypeBool :: TagType where
  "TagTypeBool = ''bool''"

definition TagTypeInt :: TagType where
  "TagTypeInt = ''int''"

text \<open>
  A slice is a list; a nil slice and an empty one are both \<open>[]\<close>, since the program only
  ranges over slices, appends to them and takes their length. A pointer the program tests
  against nil or dereferences is an \<open>option\<close>. A map the program ranges over is the list of
  its entries in the order the \<^verbatim>\<open>range\<close> statement visits them: Go leaves that order
  open, and a statement about every list covers every order.
\<close>

record Validation =
  Type :: TagType
  AllowedValues :: "string list"
  Regex :: string
  MinValue :: int
  MaxValue :: int

text \<open>Each condition struct, with its fields in the order of the source: the key, then the
  value.\<close>

datatype ExistsCondition = ExistsCondition string

datatype EqualsCondition = EqualsCondition string any_value

datatype ContainsCondition = ContainsCondition string string

datatype 'f NumericCondition = NumericCondition string 'f

datatype 'f Condition = Condition
  (Exists: "ExistsCondition option")
  (Equals: "EqualsCondition option")
  (NotEquals: "EqualsCondition option")
  (Contains: "ContainsCondition option")
  (GreaterThan: "'f NumericCondition option")
  (LessThan: "'f NumericCondition option")
  (And: "'f Condition option list")
  (Or: "'f Condition option list")

record Action =
  MustContainKeys :: "string list"
  ShouldContainKeys :: "string list"
  Warn :: string
  Error :: string

record 'f Rule =
  When :: "'f Condition option"
  Then :: "Action option"

record 'f TagPolicy =
  MandatoryKeys :: "string list"
  Validations :: "(string \<times> Validation option) list"
  Rules :: "'f Rule option list"

section \<open>The rule evaluation engine (pkg/ruler)\<close>

fun validateMandatoryKeys :: "AWSResource \<Rightarrow> string list \<Rightarrow> AWSResource" where
  "validateMandatoryKeys r [] = r"
| "validateMandatoryKeys r (key # keys) =
     validateMandatoryKeys
       (if Tags r key = None
        then AddComplianceError r (''Missing mandatory tag: `'' @ key @ ''`'')
        else r)
       keys"

definition not_in_allowed_values :: "string \<Rightarrow> string \<Rightarrow> Validation \<Rightarrow> string" where
  "not_in_allowed_values key val validation =
     ''Tag `'' @ key @ ''` has value `'' @ val @ ''` which is not in allowed values: `''
       @ Join (AllowedValues validation) '', '' @ ''`''"

definition validateString ::
  "'f golib \<Rightarrow> AWSResource \<Rightarrow> string \<Rightarrow> string \<Rightarrow> Validation \<Rightarrow> AWSResource" where
  "validateString L r key val validation =
     (let r1 =
        (if length (AllowedValues validation) > 0
         then (if \<not> slices_Contains (AllowedValues validation) val
               then AddComplianceError r (not_in_allowed_values key val validation)
               else r)
         else r)
      in if Regex validation \<noteq> []
         then (case regexp_Compile L (Regex validation) of
                 None \<Rightarrow> r1
               | Some MatchString \<Rightarrow>
                   if \<not> MatchString val
                   then AddComplianceError r1
                          (''Tag `'' @ key @ ''` with value `'' @ val
                             @ ''` does not match regex: `'' @ Regex validation @ ''`'')
                   else r1)
         else r1)"

definition validateBool :: "AWSResource \<Rightarrow> string \<Rightarrow> string \<Rightarrow> AWSResource" where
  "validateBool r key val =
     (if \<not> slices_Contains [''true'', ''false''] val
      then AddComplianceError r
             (''Tag `'' @ key @ ''` has value `'' @ val @ ''` which is not a valid boolean'')
      else r)"

definition validateInt ::
  "AWSResource \<Rightarrow> string \<Rightarrow> string \<Rightarrow> Validation \<Rightarrow> AWSResource" where
  "validateInt r key val validation =
     (case Atoi val of
        None \<Rightarrow>
          AddComplianceError r
            (''Tag `'' @ key @ ''` has value `'' @ val @ ''` which is not a valid integer'')
      | Some intVal \<Rightarrow>
          (let r1 =
             (if MinValue validation \<noteq> 0 \<and> intVal < MinValue validation
              then AddComplianceError r
                     (''Tag `'' @ key @ ''` has value `'' @ Sprint_d intVal
                        @ ''` which is less than minimum: '' @ Sprint_d (MinValue validation))
              else r);
               r2 =
             (if MaxValue validation \<noteq> 0 \<and> intVal > MaxValue validation
              then AddComplianceError r1
                     (''Tag `'' @ key @ ''` has value `'' @ Sprint_d intVal
                        @ ''` which is greater than maximum: '' @ Sprint_d (MaxValue validation))
              else r1)
           in if length (AllowedValues validation) > 0
              then (if \<not> slices_Contains (AllowedValues validation) val
                    then AddComplianceError r2 (not_in_allowed_values key val validation)
                    else r2)
              else r2))"

text \<open>The loop over the validations map; a nil \<^verbatim>\<open>*Validation\<close> for a key the resource
  carries panics at \<^verbatim>\<open>validation.Type\<close>.\<close>

fun validateTagValues ::
  "'f golib \<Rightarrow> AWSResource \<Rightarrow> (string \<times> Validation option) list \<Rightarrow> panic + AWSResource" where
  "validateTagValues L r [] = Inr r"
| "validateTagValues L r ((key, validation) # rest) =
     (case Tags r key of
        None \<Rightarrow> validateTagValues L r rest
      | Some val \<Rightarrow>
          (case validation of
             None \<Rightarrow> Inl NilPointerDereference
           | Some v \<Rightarrow>
               validateTagValues L
                 (if Type v = TagTypeString then validateString L r key val v
                  else if Type v = TagTypeBool then validateBool r key val
                  else if Type v = TagTypeInt then validateInt r key val v
                  else r)
                 rest))"

text \<open>
  \<open>evaluateCondition\<close> tests the operators in the order of the source and answers with the
  first one that is set; \<open>evaluateAnd\<close> and \<open>evaluateOr\<close> are its two loops over the
  sub-conditions, each leaving at the first deciding one.
\<close>

fun evaluateCondition :: "'f golib \<Rightarrow> AWSResource \<Rightarrow> 'f Condition option \<Rightarrow> bool"
  and evaluateAnd :: "'f golib \<Rightarrow> AWSResource \<Rightarrow> 'f Condition option list \<Rightarrow> bool"
  and evaluateOr :: "'f golib \<Rightarrow> AWSResource \<Rightarrow> 'f Condition option list \<Rightarrow> bool" where
  "evaluateCondition L r None = False"
| "evaluateCondition L r (Some (Condition ex eq ne co gt lt ands ors)) =
     (case ex of
        Some (ExistsCondition k) \<Rightarrow> Tags r k \<noteq> None
      | None \<Rightarrow>
     (case eq of
        Some (EqualsCondition k v) \<Rightarrow>
          (case Tags r k of None \<Rightarrow> False | Some val \<Rightarrow> val = Sprint_v v)
      | None \<Rightarrow>
     (case ne of
        Some (EqualsCondition k v) \<Rightarrow>
          (case Tags r k of None \<Rightarrow> True | Some val \<Rightarrow> val \<noteq> Sprint_v v)
      | None \<Rightarrow>
     (case co of
        Some (ContainsCondition k s) \<Rightarrow>
          (case Tags r k of None \<Rightarrow> False | Some val \<Rightarrow> Contains_str val s)
      | None \<Rightarrow>
     (case gt of
        Some (NumericCondition k n) \<Rightarrow>
          (case Tags r k of
             None \<Rightarrow> False
           | Some val \<Rightarrow>
               (case ParseFloat L val of None \<Rightarrow> False | Some numValue \<Rightarrow> float_less L n numValue))
      | None \<Rightarrow>
     (case lt of
        Some (NumericCondition k n) \<Rightarrow>
          (case Tags r k of
             None \<Rightarrow> False
           | Some val \<Rightarrow>
               (case ParseFloat L val of None \<Rightarrow> False | Some numValue \<Rightarrow> float_less L numValue n))
      | None \<Rightarrow>
          (if length ands > 0 then evaluateAnd L r ands
           else if length ors > 0 then evaluateOr L r ors
           else False)))))))"
| "evaluateAnd L r [] = True"
| "evaluateAnd L r (subCondition # rest) =
     (if \<not> evaluateCondition L r subCondition then False else evaluateAnd L r rest)"
| "evaluateOr L r [] = False"
| "evaluateOr L r (subCondition # rest) =
     (if evaluateCondition L r subCondition then True else evaluateOr L r rest)"

fun mustContainKeys :: "AWSResource \<Rightarrow> string list \<Rightarrow> AWSResource" where
  "mustContainKeys r [] = r"
| "mustContainKeys r (key # keys) =
     mustContainKeys
       (if Tags r key = None
        then AddComplianceError r
               (''Missing required tag `'' @ key @ ''` based on rule condition'')
        else r)
       keys"

fun shouldContainKeys :: "AWSResource \<Rightarrow> string list \<Rightarrow> AWSResource" where
  "shouldContainKeys r [] = r"
| "shouldContainKeys r (key # keys) =
     shouldContainKeys
       (if Tags r key = None
        then AddComplianceWarning r
               (''Missing recommended tag `'' @ key @ ''` based on rule condition'')
        else r)
       keys"

definition applyAction :: "AWSResource \<Rightarrow> Action option \<Rightarrow> AWSResource" where
  "applyAction r action =
     (case action of
        None \<Rightarrow> r
      | Some a \<Rightarrow>
          (let r1 = mustContainKeys r (MustContainKeys a);
               r2 = shouldContainKeys r1 (ShouldContainKeys a);
               r3 = (if Error a \<noteq> [] then AddComplianceError r2 (Error a) else r2)
           in if Warn a \<noteq> [] then AddComplianceWarning r3 (Warn a) else r3))"

text \<open>The loop over the rules; a nil \<^verbatim>\<open>*Rule\<close> panics at \<^verbatim>\<open>rule.When\<close>.\<close>

fun applyRules :: "'f golib \<Rightarrow> AWSResource \<Rightarrow> 'f Rule option list \<Rightarrow> panic + AWSResource" where
  "applyRules L r [] = Inr r"
| "applyRules L r (None # rules) = Inl NilPointerDereference"
| "applyRules L r (Some rule # rules) =
     applyRules L
       (if evaluateCondition L r (When rule) then applyAction r (Then rule) else r)
       rules"

text \<open>\<open>Validate\<close> on a nil policy panics at \<^verbatim>\<open>policy.MandatoryKeys\<close>.\<close>

definition Validate :: "'f golib \<Rightarrow> AWSResource \<Rightarrow> 'f TagPolicy option \<Rightarrow> panic + AWSResource" where
  "Validate L r policy =
     (case policy of
        None \<Rightarrow> Inl NilPointerDereference
      | Some p \<Rightarrow>
          (case validateTagValues L (validateMandatoryKeys r (MandatoryKeys p)) (Validations p) of
             Inl e \<Rightarrow> Inl e
           | Inr r2 \<Rightarrow> applyRules L r2 (Rules p)))"

text \<open>\<open>ValidateAll\<close> returns the resources as the calls left them, then the two counts.\<close>

fun ValidateAll ::
  "'f golib \<Rightarrow> AWSResource list \<Rightarrow> 'f TagPolicy option
     \<Rightarrow> panic + (AWSResource list \<times> int \<times> int)" where
  "ValidateAll L [] policy = Inr ([], 0, 0)"
| "ValidateAll L (resource # resources) policy =
     (case Validate L resource policy of
        Inl e \<Rightarrow> Inl e
      | Inr r' \<Rightarrow>
          (case ValidateAll L resources policy of
             Inl e \<Rightarrow> Inl e
           | Inr (rs, compliant, nonCompliant) \<Rightarrow>
               if IsCompliant r' then Inr (r' # rs, compliant + 1, nonCompliant)
               else Inr (r' # rs, compliant, nonCompliant + 1)))"

text \<open>The resource as \<^verbatim>\<open>FindResources\<close> (provider/aws/explorer.go) builds it: the error and
  warning slices are left nil.\<close>

definition new_AWSResource ::
  "string \<Rightarrow> string \<Rightarrow> string \<Rightarrow> string \<Rightarrow> string \<Rightarrow> (string \<rightharpoonup> string) \<Rightarrow> AWSResource" where
  "new_AWSResource arn rtype service account region tags =
     \<lparr>ResourceARN = arn, ResourceType = rtype, ServiceName = service, AccountID = account,
      ResourceRegion = region, ResourceTags = tags, Errors = [], Warnings = []\<rparr>"

section \<open>The policy resolver (pkg/policy/parser.go)\<close>

fun Split :: "string \<Rightarrow> char \<Rightarrow> string list" where
  "Split [] sep = [[]]"
| "Split (c # cs) sep =
     (if c = sep then [] # Split cs sep
      else (case Split cs sep of [] \<Rightarrow> [[c]] | p # ps \<Rightarrow> (c # p) # ps))"

definition space_runes :: "string list" where
  "space_runes =
     [[CHR 0x09], [CHR 0x0A], [CHR 0x0B], [CHR 0x0C], [CHR 0x0D], [CHR 0x20],
      [CHR 0xC2, CHR 0x85], [CHR 0xC2, CHR 0xA0], [CHR 0xE1, CHR 0x9A, CHR 0x80],
      [CHR 0xE2, CHR 0x80, CHR 0x80], [CHR 0xE2, CHR 0x80, CHR 0x81],
      [CHR 0xE2, CHR 0x80, CHR 0x82], [CHR 0xE2, CHR 0x80, CHR 0x83],
      [CHR 0xE2, CHR 0x80, CHR 0x84], [CHR 0xE2, CHR 0x80, CHR 0x85],
      [CHR 0xE2, CHR 0x80, CHR 0x86], [CHR 0xE2, CHR 0x80, CHR 0x87],
      [CHR 0xE2, CHR 0x80, CHR 0x88], [CHR 0xE2, CHR 0x80, CHR 0x89],
      [CHR 0xE2, CHR 0x80, CHR 0x8A], [CHR 0xE2, CHR 0x80, CHR 0xA8],
      [CHR 0xE2, CHR 0x80, CHR 0xA9], [CHR 0xE2, CHR 0x80, CHR 0xAF],
      [CHR 0xE2, CHR 0x81, CHR 0x9F], [CHR 0xE3, CHR 0x80, CHR 0x80]]"

text \<open>The length of the first entry of the table that starts the string; 0 when none does.\<close>

fun leading :: "string list \<Rightarrow> string \<Rightarrow> nat" where
  "leading [] s = 0"
| "leading (p # ps) s = (if p \<noteq> [] \<and> HasPrefix s p then length p else leading ps s)"

fun TrimLeft :: "string list \<Rightarrow> string \<Rightarrow> string" where
  "TrimLeft table [] = []"
| "TrimLeft table (c # cs) =
     (if leading table (c # cs) = 0 then c # cs
      else TrimLeft table (drop (leading table (c # cs) - 1) cs))"

definition TrimSpace :: "string \<Rightarrow> string" where
  "TrimSpace s = rev (TrimLeft (map rev space_runes) (rev (TrimLeft space_runes s)))"


record 'f Blueprint =
  TagPolicy :: "'f TagPolicy option"

record 'f ResourceConfig =
  TagPolicy :: "'f TagPolicy option"
  Extends :: "string list"

record 'f Policy =
  Blueprints :: "(string \<times> 'f Blueprint option) list option"
  Resources :: "(string \<times> (string \<times> 'f ResourceConfig option) list option) list option"

record 'f ResourceDefinition =
  Service :: string
  ResourceType :: string
  TagPolicy :: "'f TagPolicy option"

definition empty_TagPolicy :: "'f TagPolicy" where
  "empty_TagPolicy = \<lparr>MandatoryKeys = [], Validations = [], Rules = []\<rparr>"

text \<open>\<^verbatim>\<open>m[k] = v\<close> on a map held as its entries: the entry of \<open>k\<close> gets the value, a new
  key is entered last.\<close>

fun store :: "'k \<Rightarrow> 'v \<Rightarrow> ('k \<times> 'v) list \<Rightarrow> ('k \<times> 'v) list" where
  "store k v [] = [(k, v)]"
| "store k v ((k', v') # m) = (if k' = k then (k, v) # m else (k', v') # store k v m)"

text \<open>\<^verbatim>\<open>resourceKeys[key]\<close> on a \<^verbatim>\<open>map[string]bool\<close>: false for a key not in the map.\<close>

definition lookup_bool :: "(string \<times> bool) list \<Rightarrow> string \<Rightarrow> bool" where
  "lookup_bool m k = (case map_of m k of None \<Rightarrow> False | Some b \<Rightarrow> b)"

fun own_keys :: "(string \<times> bool) list \<Rightarrow> string list \<Rightarrow> (string \<times> bool) list" where
  "own_keys resourceKeys [] = resourceKeys"
| "own_keys resourceKeys (key # keys) = own_keys (store key True resourceKeys) keys"

fun blueprint_keys :: "(string \<times> bool) list \<Rightarrow> string list \<Rightarrow> (string \<times> bool) list" where
  "blueprint_keys resourceKeys [] = resourceKeys"
| "blueprint_keys resourceKeys (key # keys) =
     blueprint_keys
       (if \<not> lookup_bool resourceKeys key then store key True resourceKeys else resourceKeys)
       keys"

fun blueprint_validations ::
  "(string \<times> Validation option) list \<Rightarrow> (string \<times> Validation option) list
     \<Rightarrow> (string \<times> Validation option) list \<Rightarrow> (string \<times> Validation option) list" where
  "blueprint_validations own defs [] = defs"
| "blueprint_validations own defs ((key, validation) # rest) =
     blueprint_validations own
       (if map_of own key = None then store key validation defs else defs)
       rest"

fun maps_Copy :: "('k \<times> 'v) list \<Rightarrow> ('k \<times> 'v) list \<Rightarrow> ('k \<times> 'v) list" where
  "maps_Copy dst [] = dst"
| "maps_Copy dst ((k, v) # src) = maps_Copy (store k v dst) src"

fun extend_all ::
  "'f TagPolicy \<Rightarrow> (string \<times> 'f Blueprint option) list
     \<Rightarrow> (string \<times> bool) list \<times> 'f TagPolicy \<Rightarrow> string list
     \<Rightarrow> panic + ((string \<times> bool) list \<times> 'f TagPolicy)" where
  "extend_all own blueprints (resourceKeys, definition) [] = Inr (resourceKeys, definition)"
| "extend_all own blueprints (resourceKeys, definition) (extendPath # rest) =
     (case Split (TrimSpace extendPath) CHR ''.'' of
        [] \<Rightarrow> Inl IndexOutOfRange
      | [p] \<Rightarrow> Inl IndexOutOfRange
      | p # name # ps \<Rightarrow>
          (case map_of blueprints name of
             None \<Rightarrow> Inl NilPointerDereference
           | Some None \<Rightarrow> Inl NilPointerDereference
           | Some (Some blueprint) \<Rightarrow>
               (case Blueprint.TagPolicy blueprint of
                  None \<Rightarrow> Inl NilPointerDereference
                | Some b \<Rightarrow>
                    extend_all own blueprints
                      (blueprint_keys resourceKeys (MandatoryKeys b),
                       definition
                         \<lparr>Validations :=
                            blueprint_validations (Validations own) (Validations definition)
                              (Validations b),
                          Rules := Rules definition @ Rules b\<rparr>)
                      rest)))"

text \<open>The guarded loop over \<^verbatim>\<open>resourceConfig.Extends\<close>: it runs only when the list is not
  empty and the policy has a blueprints map.\<close>

definition extends_loop ::
  "'f Policy \<Rightarrow> 'f TagPolicy \<Rightarrow> (string \<times> bool) list \<Rightarrow> string list
     \<Rightarrow> panic + ((string \<times> bool) list \<times> 'f TagPolicy)" where
  "extends_loop config own resourceKeys extends =
     (case Blueprints config of
        None \<Rightarrow> Inr (resourceKeys, empty_TagPolicy)
      | Some blueprints \<Rightarrow>
          if length extends > 0
          then extend_all own blueprints (resourceKeys, empty_TagPolicy) extends
          else Inr (resourceKeys, empty_TagPolicy))"

text \<open>The resource configuration's own policy: a nil \<^verbatim>\<open>TagPolicy\<close> is replaced by an empty
  one (the source stores the replacement in the configuration itself).\<close>

definition own_policy :: "'f ResourceConfig \<Rightarrow> 'f TagPolicy" where
  "own_policy rc = (case ResourceConfig.TagPolicy rc of None \<Rightarrow> empty_TagPolicy | Some p \<Rightarrow> p)"

text \<open>
  \<open>visit\<close> is the order in which the final \<^verbatim>\<open>range resourceKeys\<close> visits the keys of the
  map the function has built: Go leaves it open, so it is a parameter, and a permutation of
  the keys it is given.
\<close>

definition processResource ::
  "(string list \<Rightarrow> string list) \<Rightarrow> 'f Policy \<Rightarrow> string \<Rightarrow> string \<Rightarrow> 'f ResourceConfig option
     \<Rightarrow> panic + 'f ResourceDefinition" where
  "processResource visit config service resourceType resourceConfig =
     (case resourceConfig of
        None \<Rightarrow>
          Inr \<lparr>Service = service, ResourceType = resourceType, TagPolicy = Some empty_TagPolicy\<rparr>
      | Some rc \<Rightarrow>
          (case extends_loop config (own_policy rc)
                  (own_keys [] (MandatoryKeys (own_policy rc))) (Extends rc) of
             Inl e \<Rightarrow> Inl e
           | Inr (resourceKeys, definition) \<Rightarrow>
               Inr \<lparr>Service = service, ResourceType = resourceType,
                    TagPolicy =
                      Some (definition
                             \<lparr>MandatoryKeys := visit (map fst resourceKeys),
                              Validations :=
                                maps_Copy (Validations definition) (Validations (own_policy rc)),
                              Rules := Rules definition @ Rules (own_policy rc)\<rparr>)\<rparr>))"

definition extended_blueprint :: "'f Policy \<Rightarrow> string \<Rightarrow> 'f TagPolicy option" where
  "extended_blueprint config extendPath =
     (case Blueprints config of
        None \<Rightarrow> None
      | Some blueprints \<Rightarrow>
          (case Split (TrimSpace extendPath) CHR ''.'' of
             p # name # ps \<Rightarrow>
               (case map_of blueprints name of
                  Some (Some blueprint) \<Rightarrow> Blueprint.TagPolicy blueprint
                | _ \<Rightarrow> None)
           | _ \<Rightarrow> None))"

definition blueprint_key_set :: "'f Policy \<Rightarrow> string \<Rightarrow> string set" where
  "blueprint_key_set config extendPath =
     (case extended_blueprint config extendPath of None \<Rightarrow> {} | Some b \<Rightarrow> set (MandatoryKeys b))"

definition mandatory_key_union :: "'f Policy \<Rightarrow> 'f ResourceConfig \<Rightarrow> string set" where
  "mandatory_key_union config rc =
     set (MandatoryKeys (own_policy rc)) \<union> \<Union> (set (map (blueprint_key_set config) (Extends rc)))"

definition definition_keys :: "'f ResourceDefinition \<Rightarrow> string list" where
  "definition_keys d =
     (case ResourceDefinition.TagPolicy d of None \<Rightarrow> [] | Some p \<Rightarrow> MandatoryKeys p)"

section \<open>Structural validation of a policy (pkg/policy: ValidatePolicy)\<close>

text \<open>
  A \<^verbatim>\<open>validator.FieldError\<close>, with what the translations read of it: the tag that failed,
  the name of the field, the parameter, and the value of the field when it is a string.
\<close>

datatype FieldError = FieldError (Tag: string) (Field: string) (Param: string) (Value: "string option")

text \<open>
  The validation library keeps the length of the field name in a \<^verbatim>\<open>uint8\<close> and
  \<^verbatim>\<open>Field()\<close> returns that many bytes from the end of the name.
\<close>

definition fieldError :: "string \<Rightarrow> string \<Rightarrow> string \<Rightarrow> string option \<Rightarrow> FieldError" where
  "fieldError tag name param val =
     FieldError tag (drop (length name - length name mod 256) name) param val"

text \<open>\<^verbatim>\<open>sl.ReportError(field, fieldName, structFieldName, tag, param)\<close>.\<close>

definition ReportError ::
  "string option \<Rightarrow> string \<Rightarrow> string \<Rightarrow> string \<Rightarrow> string \<Rightarrow> FieldError" where
  "ReportError val fieldName structFieldName tag param = fieldError tag fieldName param val"

text \<open>
  What the model leaves to the validation library: whether the tag \<^verbatim>\<open>required\<close> accepts a
  \<^verbatim>\<open>float64\<close> (it refuses the zero value), and the text of the translations that
  \<^verbatim>\<open>RegisterDefaultTranslations\<close> registers for the library's own tags.
\<close>

record 'f validator =
  required_float :: "'f \<Rightarrow> bool"
  default_translation :: "FieldError \<Rightarrow> string"




definition ValidateConditionStruct :: "'f Condition \<Rightarrow> FieldError list" where
  "ValidateConditionStruct condition =
     (let count =
            (if Exists condition \<noteq> None then 1 else 0)
          + (if Equals condition \<noteq> None then 1 else 0)
          + (if NotEquals condition \<noteq> None then 1 else 0)
          + (if Contains condition \<noteq> None then 1 else 0)
          + (if GreaterThan condition \<noteq> None then 1 else 0)
          + (if LessThan condition \<noteq> None then 1 else 0)
          + (if length (And condition) > 0 then 1 else 0)
          + (if length (Or condition) > 0 then 1 else (0::nat))
      in if count \<noteq> 1
         then [ReportError None ''Condition'' ''condition'' ''exactly_one_condition_type'' []]
         else [])"





text \<open>
  \<^verbatim>\<open>validate.Struct\<close>, as the \<^verbatim>\<open>validate\<close> tags of pkg/policy/types direct it. The library
  visits the fields of a struct in the order of their declaration, and calls the function
  registered for the struct after them, whatever the fields reported; every failure is added
  to one list and the visit goes on. On one field the tags are tried from left to right and
  the first that fails is reported: \<^verbatim>\<open>omitempty\<close> leaves a zero value alone, \<^verbatim>\<open>dive\<close> visits
  the entries of a slice or of a map, a nil pointer is reported under \<^verbatim>\<open>required\<close> and passed
  over otherwise, and a pointer that is not nil leads to the visit of the struct it points to.
  The name of a field is the name of its \<^verbatim>\<open>yaml\<close> tag, followed by the index or the key
  between brackets for an entry. An empty slice is the nil slice here, which \<^verbatim>\<open>omitempty\<close>
  leaves alone, so that \<^verbatim>\<open>min=1\<close> on \<^verbatim>\<open>And\<close> and \<^verbatim>\<open>Or\<close> has nothing to refuse; of a map the
  model keeps nil apart from empty where the program does (\<^verbatim>\<open>Resources\<close>). The tag
  \<^verbatim>\<open>gtecsfield=MinValue\<close> compares \<^verbatim>\<open>MaxValue\<close> with the \<^verbatim>\<open>MinValue\<close> of the same validation.
\<close>




definition required_string :: "string \<Rightarrow> string \<Rightarrow> FieldError list" where
  "required_string name s = (if s = [] then [fieldError ''required'' name [] (Some s)] else [])"

fun Struct_ExistsCondition :: "ExistsCondition \<Rightarrow> FieldError list" where
  "Struct_ExistsCondition (ExistsCondition key) = required_string ''key'' key"

fun Struct_EqualsCondition :: "EqualsCondition \<Rightarrow> FieldError list" where
  "Struct_EqualsCondition (EqualsCondition key val) =
     required_string ''key'' key
     @ (if val = ANil then [fieldError ''required'' ''value'' [] None] else [])"

fun Struct_ContainsCondition :: "ContainsCondition \<Rightarrow> FieldError list" where
  "Struct_ContainsCondition (ContainsCondition key val) =
     required_string ''key'' key @ required_string ''value'' val"

fun Struct_NumericCondition :: "'f validator \<Rightarrow> 'f NumericCondition \<Rightarrow> FieldError list" where
  "Struct_NumericCondition V (NumericCondition key val) =
     required_string ''key'' key
     @ (if \<not> required_float V val then [fieldError ''required'' ''value'' [] None] else [])"

fun Struct_Condition :: "'f validator \<Rightarrow> 'f Condition \<Rightarrow> FieldError list"
  and Struct_Conditions :: "'f validator \<Rightarrow> 'f Condition option list \<Rightarrow> FieldError list" where
  "Struct_Condition V (Condition ex eq ne co gt lt ands ors) =
     (case ex of None \<Rightarrow> [] | Some c \<Rightarrow> Struct_ExistsCondition c)
     @ (case eq of None \<Rightarrow> [] | Some c \<Rightarrow> Struct_EqualsCondition c)
     @ (case ne of None \<Rightarrow> [] | Some c \<Rightarrow> Struct_EqualsCondition c)
     @ (case co of None \<Rightarrow> [] | Some c \<Rightarrow> Struct_ContainsCondition c)
     @ (case gt of None \<Rightarrow> [] | Some c \<Rightarrow> Struct_NumericCondition V c)
     @ (case lt of None \<Rightarrow> [] | Some c \<Rightarrow> Struct_NumericCondition V c)
     @ Struct_Conditions V ands
     @ Struct_Conditions V ors
     @ ValidateConditionStruct (Condition ex eq ne co gt lt ands ors)"
| "Struct_Conditions V [] = []"
| "Struct_Conditions V (None # cs) = Struct_Conditions V cs"
| "Struct_Conditions V (Some c # cs) = Struct_Condition V c @ Struct_Conditions V cs"












section \<open>Inputs of the scenarios\<close>

text \<open>The policy of the backup scenario: three mandatory keys and one rule.\<close>

definition scenario_policy :: "'f TagPolicy" where
  "scenario_policy =
     \<lparr>MandatoryKeys = [''environment'', ''owner'', ''cost-center''],
      Validations = [],
      Rules =
        [Some \<lparr>When = Some (Condition None
                     (Some (EqualsCondition ''environment'' (AString ''prod'')))
                     None None None None [] []),
               Then = Some \<lparr>MustContainKeys = [''backup-policy''], ShouldContainKeys = [],
                             Warn = [], Error = ''Production resources need backup policy''\<rparr>\<rparr>]\<rparr>"

text \<open>An int validation with bounds 1 and 90 and no list of allowed values.\<close>

definition days_1_90 :: Validation where
  "days_1_90 =
     \<lparr>Type = TagTypeInt, AllowedValues = [], Regex = [], MinValue = 1, MaxValue = 90\<rparr>"

text \<open>The same bounds with a list of allowed values that holds neither 30 nor 150.\<close>

definition days_1_90_listed :: Validation where
  "days_1_90_listed =
     \<lparr>Type = TagTypeInt, AllowedValues = [''7''], Regex = [], MinValue = 1, MaxValue = 90\<rparr>"

text \<open>
  An instance of the library for evaluating string validations. Its regular expressions
  are the patterns made of lower-case letters and digits only, which Go compiles to the
  search for the pattern as a substring; every other pattern is refused here, as Go refuses
  the pattern \<^verbatim>\<open>(\<close> (a missing closing parenthesis). It has no floating-point numbers:
  it is used where no numeric condition is evaluated.
\<close>

definition literal_regexp :: "string \<Rightarrow> (string \<Rightarrow> bool) option" where
  "literal_regexp p =
     (if list_all (\<lambda>c. c \<in> set ''abcdefghijklmnopqrstuvwxyz0123456789'') p
      then Some (\<lambda>s. Contains_str s p) else None)"

definition literal_lib :: "unit golib" where
  "literal_lib =
     \<lparr>regexp_Compile = literal_regexp, ParseFloat = (\<lambda>s. None), float_less = (\<lambda>a b. False)\<rparr>"

definition example_resource :: "(string \<rightharpoonup> string) \<Rightarrow> AWSResource" where
  "example_resource tags =
     new_AWSResource ''arn:aws:ec2:us-east-1:123456789012:instance/i-1'' ''ec2:instance''
       ''ec2'' ''123456789012'' ''us-east-1'' tags"

text \<open>A string validation that sets an allow-list and a regular expression together.\<close>

definition both_constraints :: Validation where
  "both_constraints =
     \<lparr>Type = TagTypeString, AllowedValues = [''a''], Regex = ''b'', MinValue = 0, MaxValue = 0\<rparr>"

text \<open>A string validation whose regular expression does not compile.\<close>

definition broken_regex :: Validation where
  "broken_regex =
     \<lparr>Type = TagTypeString, AllowedValues = [], Regex = ''('', MinValue = 0, MaxValue = 0\<rparr>"

text \<open>A condition pointer that is nil, or a condition with no operator set.\<close>

definition no_operator :: "'f Condition option \<Rightarrow> bool" where
  "no_operator c = (c = None \<or> c = Some (Condition None None None None None None [] []))"

text \<open>
  The blueprint scenario: two blueprints that share the key \<open>owner\<close>, and a resource
  configuration that lists \<open>owner\<close> itself and extends both.
\<close>

definition base_policy :: "unit Policy" where
  "base_policy =
     \<lparr>Blueprints =
        Some [(''base'',
               Some \<lparr>Blueprint.TagPolicy =
                       Some \<lparr>MandatoryKeys = [''environment'', ''owner''],
                             Validations = [], Rules = []\<rparr>\<rparr>),
              (''billing'',
               Some \<lparr>Blueprint.TagPolicy =
                       Some \<lparr>MandatoryKeys = [''cost-center'', ''owner''],
                             Validations = [], Rules = []\<rparr>\<rparr>)],
      Resources = Some []\<rparr>"

definition instance_config :: "unit ResourceConfig" where
  "instance_config =
     \<lparr>ResourceConfig.TagPolicy =
        Some \<lparr>MandatoryKeys = [''name'', ''owner''], Validations = [], Rules = []\<rparr>,
      Extends = [''blueprints.base'', ''blueprints.billing'']\<rparr>"

definition instance_definition :: "string list \<Rightarrow> unit ResourceDefinition" where
  "instance_definition keys =
     \<lparr>Service = ''ec2'', ResourceType = ''instance'',
      TagPolicy = Some \<lparr>MandatoryKeys = keys, Validations = [], Rules = []\<rparr>\<rparr>"



section \<open>Properties of the resource model\<close>

lemma Errors_AddComplianceError:
  "Errors (AddComplianceError r msg) = Errors r @ [ComplianceError msg]"
  by (simp add: AddComplianceError_def)

lemma Errors_AddComplianceWarning: "Errors (AddComplianceWarning r msg) = Errors r"
  by (simp add: AddComplianceWarning_def)

lemma Errors_mutate_all:
  "Errors (mutate_all r ms) =
     Errors r @ concat (map (\<lambda>m. case m of AddError s \<Rightarrow> [ComplianceError s] | AddWarning s \<Rightarrow> []) ms)"
proof (induction ms arbitrary: r)
  case Nil
  show ?case by simp
next
  case (Cons m ms)
  show ?case
    by (cases m) (simp_all add: Cons.IH Errors_AddComplianceError Errors_AddComplianceWarning)
qed

text \<open>
  C7. A resource is compliant exactly when its recorded error sequence is empty: in the
  state \<^verbatim>\<open>FindResources\<close> creates it in (where it is compliant), after an
  \<open>AddComplianceError\<close>, after an \<open>AddComplianceWarning\<close> and after any run of the two.
  \<open>AddComplianceWarning\<close> leaves \<open>IsCompliant\<close> as it was, and after an
  \<open>AddComplianceError\<close> the resource is not compliant.
\<close>

theorem IsCompliant_invariant:
  "IsCompliant r = (length (Errors r) = 0)
   \<and> IsCompliant (new_AWSResource arn rtype service account region tags)
   \<and> length (Errors (new_AWSResource arn rtype service account region tags)) = 0
   \<and> IsCompliant (AddComplianceError r msg) = (length (Errors (AddComplianceError r msg)) = 0)
   \<and> IsCompliant (AddComplianceWarning r msg) = (length (Errors (AddComplianceWarning r msg)) = 0)
   \<and> IsCompliant (mutate_all r ms) = (length (Errors (mutate_all r ms)) = 0)
   \<and> IsCompliant (AddComplianceWarning r msg) = IsCompliant r
   \<and> \<not> IsCompliant (AddComplianceError r msg)"
  by (simp add: IsCompliant_def Errors_AddComplianceError Errors_AddComplianceWarning
      new_AWSResource_def)

section \<open>Properties of the rule evaluation engine\<close>

lemma HasPrefix_append: "HasPrefix (sub @ ys) sub"
  by (induction sub) auto

lemma Contains_str_append: "Contains_str (xs @ sub @ ys) sub"
proof (induction xs)
  case Nil
  show ?case by (cases "sub @ ys") (use HasPrefix_append[of sub ys] in auto)
next
  case (Cons x xs)
  then show ?case by simp
qed

lemma Atoi_30: "Atoi ''30'' = Some 30"
  by (simp add: Atoi_def digit_of_def)

lemma Atoi_150: "Atoi ''150'' = Some 150"
  by (simp add: Atoi_def digit_of_def)

lemma Atoi_thirty: "Atoi ''thirty'' = None"
  by (simp add: Atoi_def digit_of_def)

text \<open>
  C1. On a resource whose tags are exactly \<open>environment = prod\<close> and that carries no error
  yet, \<open>Validate\<close> with the scenario's policy returns normally and leaves exactly four
  errors, in the order the code records them: the two missing mandatory tags \<open>owner\<close> and
  \<open>cost-center\<close>, the missing required tag \<open>backup-policy\<close> and the rule's literal error.
  The resource is not compliant afterwards, and its tags and warnings are untouched.
\<close>

theorem Validate_backup_scenario:
  "Validate L (r\<lparr>ResourceTags := [''environment'' \<mapsto> ''prod''], Errors := []\<rparr>)
       (Some scenario_policy)
     = Inr (r\<lparr>ResourceTags := [''environment'' \<mapsto> ''prod''],
              Errors :=
                [ComplianceError ''Missing mandatory tag: `owner`'',
                 ComplianceError ''Missing mandatory tag: `cost-center`'',
                 ComplianceError ''Missing required tag `backup-policy` based on rule condition'',
                 ComplianceError ''Production resources need backup policy'']\<rparr>)
   \<and> \<not> IsCompliant
         (r\<lparr>ResourceTags := [''environment'' \<mapsto> ''prod''],
            Errors :=
              [ComplianceError ''Missing mandatory tag: `owner`'',
               ComplianceError ''Missing mandatory tag: `cost-center`'',
               ComplianceError ''Missing required tag `backup-policy` based on rule condition'',
               ComplianceError ''Production resources need backup policy'']\<rparr>)"
  by (simp add: Validate_def scenario_policy_def Tags_def AddComplianceError_def applyAction_def
      IsCompliant_def)

text \<open>
  C2. A condition whose first set operator is \<open>NotEquals(key, value)\<close> evaluates to false
  exactly when the resource carries \<open>key\<close> with the string form of \<open>value\<close>: it is true when
  the key is absent and true when the key is present with any other value.
\<close>

theorem evaluateCondition_NotEquals:
  "evaluateCondition L r
       (Some (Condition None None (Some (EqualsCondition key v)) co gt lt ands ors))
     = (Tags r key \<noteq> Some (Sprint_v v))"
  by (auto split: option.splits)

lemma Contains_str_greater:
  "Contains_str (''Tag `'' @ key @ ''` has value `150` which is greater than maximum: 90'')
     ''greater than maximum''"
  using Contains_str_append[of "''Tag `'' @ key @ ''` has value `150` which is ''"
      "''greater than maximum''" "'': 90''"] by simp

lemma Contains_str_not_integer:
  "Contains_str (''Tag `'' @ key @ ''` has value `'' @ val @ ''` which is not a valid integer'')
     ''not a valid integer''"
  using Contains_str_append[of "''Tag `'' @ key @ ''` has value `'' @ val @ ''` which is ''"
      "''not a valid integer''" "[]"] by simp

lemma validateInt_30_bounds:
  "MinValue v = 1 \<Longrightarrow> MaxValue v = 90 \<Longrightarrow>
   validateInt r key ''30'' v =
     r\<lparr>Errors := Errors r
          @ (if AllowedValues v \<noteq> [] \<and> ''30'' \<notin> set (AllowedValues v)
             then [ComplianceError (not_in_allowed_values key ''30'' v)] else [])\<rparr>"
  by (simp add: validateInt_def Atoi_30 slices_Contains_def AddComplianceError_def Let_def)

lemma validateInt_150_bounds:
  "MinValue v = 1 \<Longrightarrow> MaxValue v = 90 \<Longrightarrow>
   validateInt r key ''150'' v =
     r\<lparr>Errors := Errors r
          @ [ComplianceError
               (''Tag `'' @ key @ ''` has value `150` which is greater than maximum: 90'')]
          @ (if AllowedValues v \<noteq> [] \<and> ''150'' \<notin> set (AllowedValues v)
             then [ComplianceError (not_in_allowed_values key ''150'' v)] else [])\<rparr>"
  by (simp add: validateInt_def Atoi_150 slices_Contains_def AddComplianceError_def
      Sprint_d_def digit_char_def Let_def)

lemma validateInt_unparsed:
  "Atoi val = None \<Longrightarrow>
   validateInt r key val v =
     r\<lparr>Errors := Errors r
          @ [ComplianceError
               (''Tag `'' @ key @ ''` has value `'' @ val @ ''` which is not a valid integer'')]\<rparr>"
  by (simp add: validateInt_def AddComplianceError_def)

text \<open>
  C3, as stated for every int validation with bounds 1 and 90, fails: the bounds do not
  decide the outcome alone, because \<open>validateInt\<close> goes on to the list of allowed values
  after them. With the list \<open>[7]\<close> the value \<open>30\<close> records the allowed-values error, and the
  value \<open>150\<close> records two errors.
\<close>

theorem validateInt_allowed_values_counterexample:
  "Type days_1_90_listed = TagTypeInt
   \<and> MinValue days_1_90_listed = 1 \<and> MaxValue days_1_90_listed = 90
   \<and> Errors (validateInt (example_resource [''retention'' \<mapsto> ''30'']) ''retention'' ''30''
               days_1_90_listed)
       = [ComplianceError ''Tag `retention` has value `30` which is not in allowed values: `7`'']
   \<and> Errors (validateInt (example_resource [''retention'' \<mapsto> ''150'']) ''retention'' ''150''
               days_1_90_listed)
       = [ComplianceError ''Tag `retention` has value `150` which is greater than maximum: 90'',
          ComplianceError ''Tag `retention` has value `150` which is not in allowed values: `7`'']"
  by (simp add: validateInt_def Atoi_30 Atoi_150 days_1_90_listed_def example_resource_def
      new_AWSResource_def slices_Contains_def not_in_allowed_values_def AddComplianceError_def
      Sprint_d_def digit_char_def Let_def)

text \<open>
  C3, amended. For every int validation with bounds 1 and 90, \<open>validateInt\<close> appends to the
  errors of the resource, and changes nothing else:
  for the value \<open>30\<close> no bound error, and only the allowed-values error when the list is
  non-empty and does not hold \<open>30\<close>, so nothing when the list is empty or holds it;
  for \<open>150\<close> the error containing "greater than maximum", followed by the allowed-values
  error under the same condition on \<open>150\<close>, so that error alone when the list is empty or
  holds it. For every int validation, whatever its bounds and list, the value \<open>thirty\<close>, and
  every value that \<open>Atoi\<close> rejects, records exactly the error containing
  "not a valid integer": the bounds and the list are not looked at.
\<close>

theorem validateInt_cases:
  "(MinValue v = 1 \<and> MaxValue v = 90 \<longrightarrow>
      validateInt r key ''30'' v =
        r\<lparr>Errors := Errors r
             @ (if AllowedValues v \<noteq> [] \<and> ''30'' \<notin> set (AllowedValues v)
                then [ComplianceError (not_in_allowed_values key ''30'' v)] else [])\<rparr>
      \<and> validateInt r key ''150'' v =
        r\<lparr>Errors := Errors r
             @ [ComplianceError
                  (''Tag `'' @ key @ ''` has value `150` which is greater than maximum: 90'')]
             @ (if AllowedValues v \<noteq> [] \<and> ''150'' \<notin> set (AllowedValues v)
                then [ComplianceError (not_in_allowed_values key ''150'' v)] else [])\<rparr>)
   \<and> Contains_str (''Tag `'' @ key @ ''` has value `150` which is greater than maximum: 90'')
        ''greater than maximum''
   \<and> validateInt r key ''thirty'' v =
        r\<lparr>Errors := Errors r
             @ [ComplianceError
                  (''Tag `'' @ key @ ''` has value `thirty` which is not a valid integer'')]\<rparr>
   \<and> (Atoi val = None \<longrightarrow>
        validateInt r key val v =
          r\<lparr>Errors := Errors r
               @ [ComplianceError
                    (''Tag `'' @ key @ ''` has value `'' @ val
                       @ ''` which is not a valid integer'')]\<rparr>
        \<and> Contains_str
            (''Tag `'' @ key @ ''` has value `'' @ val @ ''` which is not a valid integer'')
            ''not a valid integer'')"
proof (intro conjI impI)
  assume b: "MinValue v = 1 \<and> MaxValue v = 90"
  show "validateInt r key ''30'' v =
        r\<lparr>Errors := Errors r
             @ (if AllowedValues v \<noteq> [] \<and> ''30'' \<notin> set (AllowedValues v)
                then [ComplianceError (not_in_allowed_values key ''30'' v)] else [])\<rparr>"
    using b by (intro validateInt_30_bounds) simp_all
  show "validateInt r key ''150'' v =
        r\<lparr>Errors := Errors r
             @ [ComplianceError
                  (''Tag `'' @ key @ ''` has value `150` which is greater than maximum: 90'')]
             @ (if AllowedValues v \<noteq> [] \<and> ''150'' \<notin> set (AllowedValues v)
                then [ComplianceError (not_in_allowed_values key ''150'' v)] else [])\<rparr>"
    using b by (intro validateInt_150_bounds) simp_all
next
  show "Contains_str (''Tag `'' @ key @ ''` has value `150` which is greater than maximum: 90'')
        ''greater than maximum''"
    by (rule Contains_str_greater)
next
  show "validateInt r key ''thirty'' v =
        r\<lparr>Errors := Errors r
             @ [ComplianceError
                  (''Tag `'' @ key @ ''` has value `thirty` which is not a valid integer'')]\<rparr>"
    using validateInt_unparsed[OF Atoi_thirty, of r key v] by simp
next
  assume a: "Atoi val = None"
  show "validateInt r key val v =
          r\<lparr>Errors := Errors r
               @ [ComplianceError
                    (''Tag `'' @ key @ ''` has value `'' @ val
                       @ ''` which is not a valid integer'')]\<rparr>"
    by (rule validateInt_unparsed[OF a])
  show "Contains_str
            (''Tag `'' @ key @ ''` has value `'' @ val @ ''` which is not a valid integer'')
            ''not a valid integer''"
    by (rule Contains_str_not_integer)
qed

theorem validateInt_cases_witness:
  "MinValue days_1_90 = 1 \<and> MaxValue days_1_90 = 90 \<and> Atoi ''3x'' = None
   \<and> validateInt (example_resource [''retention'' \<mapsto> ''30'']) ''retention'' ''30'' days_1_90
       = example_resource [''retention'' \<mapsto> ''30'']
   \<and> Errors (validateInt (example_resource [''retention'' \<mapsto> ''150'']) ''retention'' ''150''
               days_1_90)
       = [ComplianceError ''Tag `retention` has value `150` which is greater than maximum: 90'']
   \<and> Errors (validateInt (example_resource [''retention'' \<mapsto> ''3x'']) ''retention'' ''3x''
               days_1_90_listed)
       = [ComplianceError ''Tag `retention` has value `3x` which is not a valid integer'']"
proof -
  have b: "MinValue days_1_90 = 1 \<and> MaxValue days_1_90 = 90"
    by (simp add: days_1_90_def)
  have a: "Atoi ''3x'' = None"
    by (simp add: Atoi_def digit_of_def)
  have e: "AllowedValues days_1_90 = []"
    by (simp add: days_1_90_def)
  have n: "Errors (example_resource t) = []" for t
    by (simp add: example_resource_def new_AWSResource_def)
  from validateInt_cases[of days_1_90 "example_resource [''retention'' \<mapsto> ''30'']"
      "''retention''" "''3x''"] b a e
  have 1: "validateInt (example_resource [''retention'' \<mapsto> ''30'']) ''retention'' ''30'' days_1_90
       = example_resource [''retention'' \<mapsto> ''30'']"
    by simp
  from validateInt_cases[of days_1_90 "example_resource [''retention'' \<mapsto> ''150'']"
      "''retention''" "''3x''"] b a e
  have 2: "Errors (validateInt (example_resource [''retention'' \<mapsto> ''150'']) ''retention'' ''150''
               days_1_90)
       = [ComplianceError ''Tag `retention` has value `150` which is greater than maximum: 90'']"
    by (simp add: n)
  from validateInt_cases[of days_1_90_listed "example_resource [''retention'' \<mapsto> ''3x'']"
      "''retention''" "''3x''"] a
  have 3: "Errors (validateInt (example_resource [''retention'' \<mapsto> ''3x'']) ''retention'' ''3x''
               days_1_90_listed)
       = [ComplianceError ''Tag `retention` has value `3x` which is not a valid integer'']"
    by (simp add: n)
  from b a 1 2 3 show ?thesis by blast
qed

text \<open>
  C8, as stated, fails: \<open>validateString\<close> tests the allow-list and the regular expression one
  after the other, not as alternatives. A validation that sets both records both errors for
  the value \<open>c\<close>, which is neither in the list \<open>[a]\<close> nor matched by \<open>b\<close>.
\<close>

theorem validateString_both_counterexample:
  "Errors (validateString literal_lib (example_resource [''tier'' \<mapsto> ''c'']) ''tier'' ''c''
             both_constraints)
     = [ComplianceError ''Tag `tier` has value `c` which is not in allowed values: `a`'',
        ComplianceError ''Tag `tier` with value `c` does not match regex: `b`'']"
  by (simp add: validateString_def literal_lib_def literal_regexp_def example_resource_def
      new_AWSResource_def both_constraints_def
      slices_Contains_def not_in_allowed_values_def AddComplianceError_def)

text \<open>
  C8, amended. For every string validation and every value, \<open>validateString\<close> appends to
  the errors of the resource, and changes nothing else: the allowed-values error exactly when
  the list is non-empty and the value is not in it, then the regex error exactly when the
  expression is set, compiles and does not match the value. Each test is independent of the
  other. So at most one error is recorded for the value in every case but one: the validation
  sets both constraints and the value fails both, and then both errors are recorded, the
  allowed-values error first.
\<close>

theorem validateString_errors:
  "validateString L r key val v =
     r\<lparr>Errors := Errors r
          @ (if AllowedValues v \<noteq> [] \<and> val \<notin> set (AllowedValues v)
             then [ComplianceError (not_in_allowed_values key val v)] else [])
          @ (if Regex v \<noteq> [] \<and> (\<exists>m. regexp_Compile L (Regex v) = Some m \<and> \<not> m val)
             then [ComplianceError
                     (''Tag `'' @ key @ ''` with value `'' @ val
                        @ ''` does not match regex: `'' @ Regex v @ ''`'')]
             else [])\<rparr>
   \<and> (length (Errors (validateString L r key val v)) \<le> length (Errors r) + 1)
       = (\<not> ((AllowedValues v \<noteq> [] \<and> val \<notin> set (AllowedValues v))
              \<and> (Regex v \<noteq> [] \<and> (\<exists>m. regexp_Compile L (Regex v) = Some m \<and> \<not> m val))))"
  by (auto simp: validateString_def slices_Contains_def AddComplianceError_def Let_def
      split: option.splits)

theorem validateString_errors_witness:
  "validateString literal_lib (example_resource [''tier'' \<mapsto> ''a'']) ''tier'' ''a''
       both_constraints
     = (example_resource [''tier'' \<mapsto> ''a''])
         \<lparr>Errors := [ComplianceError ''Tag `tier` with value `a` does not match regex: `b`'']\<rparr>
   \<and> validateString literal_lib (example_resource [''tier'' \<mapsto> ''b'']) ''tier'' ''b''
       both_constraints
     = (example_resource [''tier'' \<mapsto> ''b''])
         \<lparr>Errors := [ComplianceError
                        ''Tag `tier` has value `b` which is not in allowed values: `a`'']\<rparr>"
proof -
  have n: "Errors (example_resource t) = []" for t
    by (simp add: example_resource_def new_AWSResource_def)
  show ?thesis
    using validateString_errors[of literal_lib "example_resource [''tier'' \<mapsto> ''a'']" "''tier''"
        "''a''" both_constraints]
      validateString_errors[of literal_lib "example_resource [''tier'' \<mapsto> ''b'']" "''tier''"
        "''b''" both_constraints]
    by (simp add: n both_constraints_def literal_lib_def literal_regexp_def
        not_in_allowed_values_def)
qed

lemma validateInt_Regex: "validateInt r key val (v\<lparr>Regex := x\<rparr>) = validateInt r key val v"
  by (simp add: validateInt_def not_in_allowed_values_def split: option.splits)

text \<open>
  C9. When the regular expression of a validation does not compile, \<open>validateString\<close>
  behaves as if no expression were set: it returns the resource with the allowed-values error
  at most and records nothing for the expression. The loop of \<open>validateTagValues\<close> goes on
  from that entry as it would from the entry without the expression, so the failed
  compilation is not an error of the validation run.
\<close>

theorem invalid_regex_skipped:
  "regexp_Compile L (Regex v) = None \<longrightarrow>
     validateString L r key val v = validateString L r key val (v\<lparr>Regex := []\<rparr>)
     \<and> validateString L r key val v =
         (if AllowedValues v \<noteq> [] \<and> val \<notin> set (AllowedValues v)
          then AddComplianceError r (not_in_allowed_values key val v) else r)
     \<and> validateTagValues L r ((key, Some v) # rest)
         = validateTagValues L r ((key, Some (v\<lparr>Regex := []\<rparr>)) # rest)"
proof (intro impI conjI)
  assume h: "regexp_Compile L (Regex v) = None"
  show s: "validateString L r key val v = validateString L r key val (v\<lparr>Regex := []\<rparr>)" for val
    using h by (simp add: validateString_def not_in_allowed_values_def)
  show "validateString L r key val v =
         (if AllowedValues v \<noteq> [] \<and> val \<notin> set (AllowedValues v)
          then AddComplianceError r (not_in_allowed_values key val v) else r)"
    using h by (simp add: validateString_def slices_Contains_def)
  show "validateTagValues L r ((key, Some v) # rest)
         = validateTagValues L r ((key, Some (v\<lparr>Regex := []\<rparr>)) # rest)"
    by (simp add: s validateInt_Regex split: option.splits)
qed

theorem invalid_regex_skipped_witness:
  "regexp_Compile literal_lib (Regex broken_regex) = None
   \<and> validateString literal_lib (example_resource [''owner'' \<mapsto> ''team-a'']) ''owner'' ''team-a''
        broken_regex = example_resource [''owner'' \<mapsto> ''team-a'']
   \<and> validateTagValues literal_lib (example_resource [''owner'' \<mapsto> ''team-a''])
        [(''owner'', Some broken_regex)] = Inr (example_resource [''owner'' \<mapsto> ''team-a''])"
proof -
  have h: "regexp_Compile literal_lib (Regex broken_regex) = None"
    by (simp add: literal_lib_def literal_regexp_def broken_regex_def)
  from invalid_regex_skipped[of literal_lib broken_regex
      "example_resource [''owner'' \<mapsto> ''team-a'']" "''owner''" "''team-a''" "[]"] h
  show ?thesis
    by (simp add: broken_regex_def validateString_def TagTypeString_def Tags_def
        example_resource_def new_AWSResource_def)
qed

text \<open>
  C10. A rule whose \<open>When\<close> is nil or has no operator set (every operator pointer nil, both
  lists empty) evaluates to false on every resource; \<open>applyRules\<close> passes over the rule
  without applying its \<open>Then\<close>, so a policy of that rule alone leaves the resource as it
  was.
\<close>

theorem unset_condition_never_applies:
  "no_operator (When rule) \<longrightarrow>
     evaluateCondition L r (When rule) = False
     \<and> applyRules L r (Some rule # rules) = applyRules L r rules
     \<and> applyRules L r [Some rule] = Inr r"
  by (auto simp: no_operator_def)

theorem unset_condition_never_applies_witness:
  "no_operator (When \<lparr>When = Some (Condition None None None None None None [] []),
                      Then = Some \<lparr>MustContainKeys = [''owner''], ShouldContainKeys = [''team''],
                                    Warn = ''w'', Error = ''e''\<rparr>\<rparr> :: unit Condition option)
   \<and> applyRules literal_lib (example_resource Map.empty)
        [Some \<lparr>When = Some (Condition None None None None None None [] []),
               Then = Some \<lparr>MustContainKeys = [''owner''], ShouldContainKeys = [''team''],
                             Warn = ''w'', Error = ''e''\<rparr>\<rparr>]
       = Inr (example_resource Map.empty)"
proof -
  have h: "no_operator (When \<lparr>When = Some (Condition None None None None None None [] []),
                      Then = Some \<lparr>MustContainKeys = [''owner''], ShouldContainKeys = [''team''],
                                    Warn = ''w'', Error = ''e''\<rparr>\<rparr> :: unit Condition option)"
    by (simp add: no_operator_def)
  from unset_condition_never_applies[of "\<lparr>When = Some (Condition None None None None None None [] []),
                      Then = Some \<lparr>MustContainKeys = [''owner''], ShouldContainKeys = [''team''],
                                    Warn = ''w'', Error = ''e''\<rparr>\<rparr>" literal_lib "example_resource Map.empty" "[]"] h
  show ?thesis by simp
qed

section \<open>Properties of the policy resolver\<close>

lemma keys_store: "fst ` set (store k v m) = insert k (fst ` set m)"
proof (induction m)
  case Nil
  show ?case by simp
next
  case (Cons e m)
  show ?case
  proof (cases "fst e = k")
    case True
    then show ?thesis by (cases e) auto
  next
    case False
    then show ?thesis using Cons.IH by (cases e) (simp add: insert_commute)
  qed
qed

lemma distinct_store: "distinct (map fst m) \<Longrightarrow> distinct (map fst (store k v m))"
proof (induction m)
  case Nil
  show ?case by simp
next
  case (Cons e m)
  have "fst e \<noteq> k \<Longrightarrow> fst e \<notin> fst ` set m \<Longrightarrow> fst e \<notin> fst ` set (store k v m)"
    by (simp add: keys_store)
  with Cons show ?case by (cases e) auto
qed

lemma lookup_bool_key: "lookup_bool m k \<Longrightarrow> k \<in> fst ` set m"
  by (force simp: lookup_bool_def split: option.splits dest: map_of_SomeD)

lemma keys_own_keys: "fst ` set (own_keys m ks) = fst ` set m \<union> set ks"
  by (induction ks arbitrary: m) (simp_all add: keys_store)

lemma distinct_own_keys: "distinct (map fst m) \<Longrightarrow> distinct (map fst (own_keys m ks))"
  by (induction ks arbitrary: m) (simp_all add: distinct_store)

lemma keys_blueprint_keys: "fst ` set (blueprint_keys m ks) = fst ` set m \<union> set ks"
proof (induction ks arbitrary: m)
  case Nil
  show ?case by simp
next
  case (Cons k ks)
  show ?case using lookup_bool_key[of m k] by (auto simp: Cons.IH keys_store)
qed

lemma distinct_blueprint_keys:
  "distinct (map fst m) \<Longrightarrow> distinct (map fst (blueprint_keys m ks))"
  by (induction ks arbitrary: m) (simp_all add: distinct_store)

lemma extend_all_keys:
  "Blueprints config = Some blueprints \<Longrightarrow>
   extend_all own blueprints (rk, d) es = Inr (rk', d') \<Longrightarrow>
     fst ` set rk' = fst ` set rk \<union> \<Union> (set (map (blueprint_key_set config) es))
     \<and> (distinct (map fst rk) \<longrightarrow> distinct (map fst rk'))"
proof (induction es arbitrary: rk d)
  case Nil
  then show ?case by simp
next
  case (Cons e es)
  from Cons.prems(2) obtain p name ps blueprint b where
    sp: "Split (TrimSpace e) CHR ''.'' = p # name # ps"
    and bp: "map_of blueprints name = Some (Some blueprint)"
    and tp: "Blueprint.TagPolicy blueprint = Some b"
    and rest: "extend_all own blueprints
        (blueprint_keys rk (MandatoryKeys b),
         d\<lparr>Validations := blueprint_validations (Validations own) (Validations d) (Validations b),
           Rules := Rules d @ Rules b\<rparr>) es = Inr (rk', d')"
    by (auto split: list.splits option.splits)
  have ks: "blueprint_key_set config e = set (MandatoryKeys b)"
    by (simp add: blueprint_key_set_def extended_blueprint_def Cons.prems(1) sp bp tp)
  from Cons.IH[OF Cons.prems(1) rest] show ?case
    by (auto simp: ks keys_blueprint_keys distinct_blueprint_keys)
qed

lemma extend_all_returns:
  "Blueprints config = Some blueprints \<Longrightarrow>
   \<forall>e\<in>set es. extended_blueprint config e \<noteq> None \<Longrightarrow>
     \<exists>out. extend_all own blueprints (rk, d) es = Inr out"
proof (induction es arbitrary: rk d)
  case Nil
  then show ?case by simp
next
  case (Cons e es)
  from Cons.prems have "extended_blueprint config e \<noteq> None"
    by simp
  then obtain p name ps blueprint b where
    sp: "Split (TrimSpace e) CHR ''.'' = p # name # ps"
    and bp: "map_of blueprints name = Some (Some blueprint)"
    and tp: "Blueprint.TagPolicy blueprint = Some b"
    by (auto simp: extended_blueprint_def Cons.prems(1) split: list.splits option.splits)
  from Cons.prems have "\<forall>e\<in>set es. extended_blueprint config e \<noteq> None"
    by simp
  from Cons.IH[OF Cons.prems(1) this] show ?case
    by (simp add: sp bp tp)
qed

lemma blueprint_key_set_no_blueprints:
  "Blueprints config = None \<Longrightarrow> blueprint_key_set config e = {}"
  by (simp add: blueprint_key_set_def extended_blueprint_def)

lemma extends_loop_keys:
  assumes "extends_loop config own rk es = Inr (rk', d')"
  shows "fst ` set rk' = fst ` set rk \<union> \<Union> (set (map (blueprint_key_set config) es))
         \<and> (distinct (map fst rk) \<longrightarrow> distinct (map fst rk'))"
proof (cases "Blueprints config")
  case None
  with assms have "rk' = rk" by (simp add: extends_loop_def)
  with None show ?thesis by (simp add: blueprint_key_set_no_blueprints)
next
  case (Some blueprints)
  show ?thesis
  proof (cases "es = []")
    case True
    with assms Some have "rk' = rk" by (simp add: extends_loop_def)
    with True show ?thesis by simp
  next
    case False
    with assms Some have "extend_all own blueprints (rk, empty_TagPolicy) es = Inr (rk', d')"
      by (simp add: extends_loop_def)
    from extend_all_keys[OF Some this] show ?thesis .
  qed
qed

lemma extends_loop_returns:
  assumes "es = [] \<or> Blueprints config = None
           \<or> (\<forall>e\<in>set es. extended_blueprint config e \<noteq> None)"
  shows "\<exists>out. extends_loop config own rk es = Inr out"
proof (cases "Blueprints config")
  case None
  then show ?thesis by (simp add: extends_loop_def)
next
  case (Some blueprints)
  show ?thesis
  proof (cases "es = []")
    case True
    then show ?thesis by (simp add: extends_loop_def Some)
  next
    case False
    with assms Some have "\<forall>e\<in>set es. extended_blueprint config e \<noteq> None" by simp
    from extend_all_returns[OF Some this, of own rk empty_TagPolicy] False show ?thesis
      by (simp add: extends_loop_def Some)
  qed
qed

lemma visit_set:
  assumes "\<forall>ks. mset (visit ks) = mset ks"
  shows "set (visit ks) = set ks"
proof -
  from assms have "mset (visit ks) = mset ks" by blast
  then show ?thesis by (rule mset_eq_setD)
qed

lemma visit_distinct:
  assumes "\<forall>ks. mset (visit ks) = mset ks"
  shows "distinct (visit ks) = distinct ks"
proof -
  from assms have "mset (visit ks) = mset ks" by blast
  then show ?thesis by (rule mset_eq_imp_distinct_iff)
qed

lemma processResource_keys:
  assumes perm: "\<forall>ks. mset (visit ks) = mset ks"
    and res: "processResource visit config service resourceType (Some rc) = Inr d"
  shows "ResourceDefinition.TagPolicy d \<noteq> None
         \<and> set (definition_keys d) = mandatory_key_union config rc
         \<and> distinct (definition_keys d)"
proof -
  let ?own = "own_policy rc"
  let ?rk = "own_keys [] (MandatoryKeys ?own)"
  obtain out where o: "extends_loop config ?own ?rk (Extends rc) = Inr out"
    using res by (cases "extends_loop config ?own ?rk (Extends rc)")
      (simp_all add: processResource_def)
  obtain rk' defn where out: "out = (rk', defn)" by (cases out)
  from res o out have d: "d = \<lparr>Service = service, ResourceType = resourceType,
        TagPolicy = Some (defn\<lparr>MandatoryKeys := visit (map fst rk'),
           Validations := maps_Copy (Validations defn) (Validations ?own),
           Rules := Rules defn @ Rules ?own\<rparr>)\<rparr>"
    by (simp add: processResource_def)
  have "fst ` set ?rk = set (MandatoryKeys ?own)"
    by (simp add: keys_own_keys)
  moreover have "distinct (map fst ?rk)"
    by (rule distinct_own_keys) simp
  moreover note extends_loop_keys[OF o[unfolded out]]
  ultimately have keys: "fst ` set rk' = mandatory_key_union config rc" "distinct (map fst rk')"
    by (simp_all add: mandatory_key_union_def)
  have "set (definition_keys d) = set (map fst rk')"
    by (simp add: d definition_keys_def visit_set[OF perm])
  moreover have "distinct (definition_keys d) = distinct (map fst rk')"
    by (simp add: d definition_keys_def visit_distinct[OF perm])
  ultimately show ?thesis using keys by (simp add: d)
qed

lemma processResource_returns:
  assumes "Extends rc = [] \<or> Blueprints config = None
           \<or> (\<forall>e\<in>set (Extends rc). extended_blueprint config e \<noteq> None)"
  shows "\<exists>d. processResource visit config service resourceType (Some rc) = Inr d"
proof -
  from extends_loop_returns[OF assms] obtain out where
    "extends_loop config (own_policy rc) (own_keys [] (MandatoryKeys (own_policy rc))) (Extends rc) = Inr out"
    by blast
  then show ?thesis by (cases out) (simp add: processResource_def)
qed

lemma mandatory_key_union_order:
  "set es = set (Extends rc) \<Longrightarrow>
     mandatory_key_union config (rc\<lparr>Extends := es\<rparr>) = mandatory_key_union config rc"
  by (simp add: mandatory_key_union_def own_policy_def)

lemma processResource_example:
  "processResource rev base_policy ''ec2'' ''instance'' (Some instance_config)
     = Inr (instance_definition [''cost-center'', ''environment'', ''owner'', ''name''])"
  by (simp add: processResource_def extends_loop_def base_policy_def instance_config_def
      own_policy_def instance_definition_def
      empty_TagPolicy_def TrimSpace_def space_runes_def lookup_bool_def)

lemma processResource_example_reordered:
  "processResource rev base_policy ''ec2'' ''instance''
       (Some (instance_config\<lparr>Extends := [''blueprints.billing'', ''blueprints.base'']\<rparr>))
     = Inr (instance_definition [''environment'', ''cost-center'', ''owner'', ''name''])"
  by (simp add: processResource_def extends_loop_def base_policy_def instance_config_def
      own_policy_def instance_definition_def
      empty_TagPolicy_def TrimSpace_def space_runes_def lookup_bool_def)

lemma extended_blueprint_example:
  "extended_blueprint base_policy ''blueprints.base'' \<noteq> None
   \<and> extended_blueprint base_policy ''blueprints.billing'' \<noteq> None"
  by (simp add: extended_blueprint_def base_policy_def TrimSpace_def space_runes_def)

text \<open>
  C4. \<open>visit\<close> and \<open>visit'\<close> are any two orders in which the final loop may visit the key map.
  When every path of \<open>Extends\<close> names a blueprint of the policy, \<open>processResource\<close> returns
  a definition. Whenever it returns one, the mandatory keys of its tag policy are, as a set,
  the union of the configuration's own keys with the keys of every blueprint it extends, and
  no key occurs twice in the list, whether the configuration and a blueprint or two blueprints
  list it. Resolving the configuration with its \<open>Extends\<close> list in another order gives a
  definition with the same set of mandatory keys.
\<close>

theorem processResource_mandatory_keys:
  assumes "\<forall>ks. mset (visit ks) = mset ks \<and> mset (visit' ks) = mset ks"
  shows "((\<forall>e\<in>set (Extends rc). extended_blueprint config e \<noteq> None) \<longrightarrow>
            (\<exists>d. processResource visit config service resourceType (Some rc) = Inr d))
       \<and> (processResource visit config service resourceType (Some rc) = Inr d \<longrightarrow>
            ResourceDefinition.TagPolicy d \<noteq> None
            \<and> set (definition_keys d) = mandatory_key_union config rc
            \<and> distinct (definition_keys d)
            \<and> (\<forall>es d'. mset es = mset (Extends rc)
                  \<and> processResource visit' config service resourceType
                        (Some (rc\<lparr>Extends := es\<rparr>)) = Inr d'
                  \<longrightarrow> set (definition_keys d') = set (definition_keys d)))"
proof (intro conjI impI allI)
  assume "\<forall>e\<in>set (Extends rc). extended_blueprint config e \<noteq> None"
  then show "\<exists>d. processResource visit config service resourceType (Some rc) = Inr d"
    by (intro processResource_returns) blast
next
  assume res: "processResource visit config service resourceType (Some rc) = Inr d"
  from assms have v: "\<forall>ks. mset (visit ks) = mset ks" by blast
  note k = processResource_keys[OF v res]
  from k show "ResourceDefinition.TagPolicy d \<noteq> None" by blast
  from k show u: "set (definition_keys d) = mandatory_key_union config rc" by blast
  from k show "distinct (definition_keys d)" by blast
  fix es d'
  assume a: "mset es = mset (Extends rc)
     \<and> processResource visit' config service resourceType (Some (rc\<lparr>Extends := es\<rparr>)) = Inr d'"
  from assms have v': "\<forall>ks. mset (visit' ks) = mset ks" by blast
  from a have r': "processResource visit' config service resourceType (Some (rc\<lparr>Extends := es\<rparr>)) = Inr d'"
    by blast
  from a have "mset es = mset (Extends rc)" by blast
  then have s: "set es = set (Extends rc)" by (rule mset_eq_setD)
  from processResource_keys[OF v' r']
  have "set (definition_keys d') = mandatory_key_union config (rc\<lparr>Extends := es\<rparr>)" by blast
  also have "\<dots> = mandatory_key_union config rc" by (rule mandatory_key_union_order[OF s])
  finally show "set (definition_keys d') = set (definition_keys d)" using u by simp
qed

theorem processResource_mandatory_keys_witness:
  "(extended_blueprint base_policy ''blueprints.base'' \<noteq> None
    \<and> extended_blueprint base_policy ''blueprints.billing'' \<noteq> None)
   \<and> processResource rev base_policy ''ec2'' ''instance'' (Some instance_config)
     = Inr (instance_definition [''cost-center'', ''environment'', ''owner'', ''name''])
   \<and> processResource rev base_policy ''ec2'' ''instance''
       (Some (instance_config\<lparr>Extends := [''blueprints.billing'', ''blueprints.base'']\<rparr>))
     = Inr (instance_definition [''environment'', ''cost-center'', ''owner'', ''name''])
   \<and> mandatory_key_union base_policy instance_config
       = {''name'', ''owner'', ''environment'', ''cost-center''}
   \<and> set (definition_keys
             (instance_definition [''cost-center'', ''environment'', ''owner'', ''name'']))
       = mandatory_key_union base_policy instance_config
   \<and> set (definition_keys
             (instance_definition [''environment'', ''cost-center'', ''owner'', ''name'']))
       = set (definition_keys
             (instance_definition [''cost-center'', ''environment'', ''owner'', ''name'']))"
proof -
  have p: "\<forall>ks. mset (rev ks) = mset ks \<and> mset (rev ks) = mset ks" by simp
  have m: "mset [''blueprints.billing'', ''blueprints.base''] = mset (Extends instance_config)"
    by (simp add: instance_config_def)
  note t = processResource_mandatory_keys[OF p, of instance_config base_policy "''ec2''"
      "''instance''" "instance_definition [''cost-center'', ''environment'', ''owner'', ''name'']"]
  from t processResource_example
  have 1: "set (definition_keys
             (instance_definition [''cost-center'', ''environment'', ''owner'', ''name'']))
       = mandatory_key_union base_policy instance_config"
    by blast
  from t processResource_example processResource_example_reordered m
  have 2: "set (definition_keys
             (instance_definition [''environment'', ''cost-center'', ''owner'', ''name'']))
       = set (definition_keys
             (instance_definition [''cost-center'', ''environment'', ''owner'', ''name'']))"
    by blast
  have 3: "mandatory_key_union base_policy instance_config
       = {''name'', ''owner'', ''environment'', ''cost-center''}"
    using 1 by (auto simp: definition_keys_def instance_definition_def)
  from extended_blueprint_example processResource_example processResource_example_reordered
    1 2 3
  show ?thesis by blast
qed

section \<open>Properties of the structural validation\<close>
















end
